theory Spec2Isabelle
  imports Complex_Main
begin

section \<open>Values of the page\<close>

text \<open>
  The page handles values that came out of \<^verbatim>\<open>JSON.parse\<close> or \<^verbatim>\<open>response.json()\<close>:
  null, booleans, numbers, strings, arrays and objects. An object is the list of its
  own properties (the parser leaves every key once); a property that is not there reads as
  \<^verbatim>\<open>undefined\<close>, which is \<open>None\<close> of \<open>json option\<close>.
\<close>

datatype json =
    JNull
  | JBool bool
  | JNum rat
  | JStr string
  | JArr "json list"
  | JObj "(string \<times> json) list"

text \<open>
  Exceptions. \<open>Error v\<close> is \<^verbatim>\<open>new Error(v)\<close> thrown by the page itself; the others
  are raised by the browser, which chooses their message text.
\<close>

datatype exn =
    Error json
  | TypeError
  | SyntaxError
  | QuotaExceededError
  | NetworkError

text \<open>JavaScript truthiness of a value (\<^verbatim>\<open>if (v)\<close>, \<^verbatim>\<open>a && b\<close>, \<^verbatim>\<open>a || b\<close>).\<close>

fun truthy :: "json option \<Rightarrow> bool" where
  "truthy None = False"
| "truthy (Some JNull) = False"
| "truthy (Some (JBool b)) = b"
| "truthy (Some (JNum n)) = (n \<noteq> 0)"
| "truthy (Some (JStr s)) = (s \<noteq> [])"
| "truthy (Some (JArr xs)) = True"
| "truthy (Some (JObj kvs)) = True"

text \<open>
  Reading a property, \<^verbatim>\<open>v.k\<close>. On \<^verbatim>\<open>undefined\<close> and \<^verbatim>\<open>null\<close> it throws a TypeError.
  On an object it is the property or \<^verbatim>\<open>undefined\<close>. The names the page reads
  (\<^verbatim>\<open>id\<close>, \<^verbatim>\<open>results\<close>, \<^verbatim>\<open>error\<close>, \<^verbatim>\<open>message\<close>, \<^verbatim>\<open>summary\<close>, \<^verbatim>\<open>text\<close>, \<^verbatim>\<open>topics\<close>,
  \<^verbatim>\<open>sentiments\<close>, \<^verbatim>\<open>intents\<close>, \<^verbatim>\<open>segments\<close>, \<^verbatim>\<open>average\<close>, \<^verbatim>\<open>sentiment\<close>,
  \<^verbatim>\<open>sentiment_score\<close>, \<^verbatim>\<open>topic\<close>, \<^verbatim>\<open>intent\<close>, \<^verbatim>\<open>confidence_score\<close>) are no
  built-in property of a string, number, boolean or array, so there they read as
  \<^verbatim>\<open>undefined\<close>.
\<close>

fun dot :: "json option \<Rightarrow> string \<Rightarrow> exn + json option" where
  "dot None k = Inl TypeError"
| "dot (Some JNull) k = Inl TypeError"
| "dot (Some (JObj kvs)) k = Inr (map_of kvs k)"
| "dot (Some v) k = Inr None"

section \<open>Configuration and state\<close>

definition MAX_HISTORY_ENTRIES :: nat where
  "MAX_HISTORY_ENTRIES = 10"

datatype input_mode = TextMode | UrlMode

text \<open>
  The string kept by localStorage under \<^verbatim>\<open>HISTORY_KEY\<close>, by what \<^verbatim>\<open>JSON.parse\<close> makes of
  it: the empty string, a string that is no JSON text, or the JSON text of a value.
  \<^verbatim>\<open>JSON.stringify\<close> of a value built from parsed values, strings and booleans is
  \<open>JsonText\<close> of that value.
\<close>

datatype stored = EmptyString | Unparsable | JsonText json

datatype message = Text string | Coerced json | EngineMessage exn

datatype status = Hidden | Working string | Failed message

record badge =
  label :: "json option"
  confidence :: "rat option"

datatype face = Smile | Frown | Meh

datatype block =
    SummaryText json
  | SummaryEmpty
  | TopicsList "badge list"
  | TopicsEmpty
  | SentimentDisplay face "json option" "rat option"
  | SentimentEmpty
  | IntentsList "badge list"
  | IntentsEmpty

datatype content = Untouched | ResultsContainer "block list" | EmptyState

record features =
  summarize :: bool
  topics :: bool
  sentiment :: bool
  intents :: bool

record request =
  query :: "(string \<times> string) list"
  x_request_id :: string
  body :: "string \<times> string"

text \<open>
  The state of the page: the module variables \<^verbatim>\<open>inputMode\<close> and \<^verbatim>\<open>activeAnalysisId\<close>,
  the localStorage slot (and whether the browser refuses further writes, its quota being
  used up), what the status line, the form, the main area and the metadata panel show,
  and the requests sent so far.
\<close>

record app =
  inputMode :: input_mode
  activeAnalysisId :: "string option"
  slot :: "stored option"
  storage_full :: bool
  status :: status
  formDisabled :: bool
  mainContent :: content
  metadata :: "(string \<times> input_mode \<times> string) option"
  sent :: "request list"

section \<open>History management\<close>

definition JSON_parse :: "stored \<Rightarrow> exn + json" where
  "JSON_parse t = (case t of JsonText v \<Rightarrow> Inr v | _ \<Rightarrow> Inl SyntaxError)"

text \<open>
  \<^verbatim>\<open>getHistory\<close>: the body of its \<^verbatim>\<open>try\<close>, then the function with its \<^verbatim>\<open>catch\<close>, which
  returns the empty array.
\<close>

definition getHistory_try :: "app \<Rightarrow> exn + json" where
  "getHistory_try s =
     (case slot s of
        None \<Rightarrow> Inr (JArr [])
      | Some t \<Rightarrow> if t = EmptyString then Inr (JArr []) else JSON_parse t)"

definition getHistory :: "app \<Rightarrow> json" where
  "getHistory s = (case getHistory_try s of Inl e \<Rightarrow> JArr [] | Inr v \<Rightarrow> v)"

definition setItem :: "stored \<Rightarrow> app \<Rightarrow> exn + app" where
  "setItem t s = (if storage_full s then Inl QuotaExceededError else Inr (s\<lparr>slot := Some t\<rparr>))"

definition removeItem :: "app \<Rightarrow> app" where
  "removeItem s = s\<lparr>slot := None\<rparr>"

text \<open>
  \<^verbatim>\<open>saveToHistory\<close>: \<^verbatim>\<open>history.unshift(entry)\<close> throws a TypeError when the value read is
  no array; \<^verbatim>\<open>slice(0, MAX_HISTORY_ENTRIES)\<close> is \<open>take\<close>. The \<^verbatim>\<open>catch\<close> logs and goes on.
  The last statement of the \<^verbatim>\<open>try\<close>, \<^verbatim>\<open>renderHistory()\<close>, redraws the sidebar from the
  slot and \<^verbatim>\<open>activeAnalysisId\<close> and changes neither, also when it throws; the sidebar is
  not part of \<open>app\<close>.
\<close>

definition saveToHistory_try :: "json \<Rightarrow> app \<Rightarrow> exn + app" where
  "saveToHistory_try entry s =
     (case getHistory s of
        JArr history \<Rightarrow>
          (let trimmed = take MAX_HISTORY_ENTRIES (entry # history)
           in setItem (JsonText (JArr trimmed)) s)
      | _ \<Rightarrow> Inl TypeError)"

definition saveToHistory :: "json \<Rightarrow> app \<Rightarrow> app" where
  "saveToHistory entry s = (case saveToHistory_try entry s of Inl e \<Rightarrow> s | Inr s' \<Rightarrow> s')"

text \<open>
  \<^verbatim>\<open>handleClearHistory\<close>, given the answer to its \<^verbatim>\<open>confirm\<close> dialog. Its
  \<^verbatim>\<open>renderHistory()\<close> finds the slot empty and shows the empty sidebar.
\<close>

definition handleClearHistory :: "bool \<Rightarrow> app \<Rightarrow> app" where
  "handleClearHistory confirmed s =
     (if confirmed
      then (removeItem s)\<lparr>activeAnalysisId := None, mainContent := EmptyState, metadata := None\<rparr>
      else s)"

section \<open>Results display\<close>

text \<open>
  \<^verbatim>\<open>createSummarySection\<close>: the text of the summary, or the line "No summary available".
\<close>

definition createSummarySection :: "json option \<Rightarrow> exn + block" where
  "createSummarySection summary =
     (case dot summary ''text'' of
        Inl e \<Rightarrow> Inl e
      | Inr t \<Rightarrow>
          Inr (case t of
                 None \<Rightarrow> SummaryEmpty
               | Some v \<Rightarrow> if truthy t then SummaryText v else SummaryEmpty))"

text \<open>
  The two nested \<^verbatim>\<open>forEach\<close> loops of \<^verbatim>\<open>createTopicsSection\<close> and
  \<^verbatim>\<open>createIntentsSection\<close>: every item of every segment whose property \<open>k\<close> is an array.
  Reading the property of a segment that is \<^verbatim>\<open>null\<close> throws.
\<close>

fun all_items :: "string \<Rightarrow> json list \<Rightarrow> exn + json list" where
  "all_items k [] = Inr []"
| "all_items k (segment # segments) =
     (case dot (Some segment) k of
        Inl e \<Rightarrow> Inl e
      | Inr items \<Rightarrow>
          (case all_items k segments of
             Inl e \<Rightarrow> Inl e
           | Inr rest \<Rightarrow> Inr ((case items of Some (JArr xs) \<Rightarrow> xs | _ \<Rightarrow> []) @ rest)))"

text \<open>
  One badge: the label \<^verbatim>\<open>item[k]\<close> and, unless \<^verbatim>\<open>item.confidence_score\<close> is
  \<^verbatim>\<open>undefined\<close>, the score that \<^verbatim>\<open>toFixed(2)\<close> prints; \<^verbatim>\<open>toFixed\<close> is a method of
  numbers only, so any other score throws a TypeError.
\<close>

definition create_badge :: "string \<Rightarrow> json \<Rightarrow> exn + badge" where
  "create_badge k item =
     (case dot (Some item) k of
        Inl e \<Rightarrow> Inl e
      | Inr l \<Rightarrow>
          (case dot (Some item) ''confidence_score'' of
             Inl e \<Rightarrow> Inl e
           | Inr None \<Rightarrow> Inr \<lparr>label = l, confidence = None\<rparr>
           | Inr (Some (JNum n)) \<Rightarrow> Inr \<lparr>label = l, confidence = Some n\<rparr>
           | Inr (Some _) \<Rightarrow> Inl TypeError))"

fun badges :: "string \<Rightarrow> json list \<Rightarrow> exn + badge list" where
  "badges k [] = Inr []"
| "badges k (item # items) =
     (case create_badge k item of
        Inl e \<Rightarrow> Inl e
      | Inr b \<Rightarrow> (case badges k items of Inl e \<Rightarrow> Inl e | Inr bs \<Rightarrow> Inr (b # bs)))"

definition segment_items :: "string \<Rightarrow> json option \<Rightarrow> exn + json list" where
  "segment_items k d =
     (if truthy d
      then (case dot d ''segments'' of
              Inl e \<Rightarrow> Inl e
            | Inr (Some (JArr segments)) \<Rightarrow> all_items k segments
            | Inr _ \<Rightarrow> Inr [])
      else Inr [])"

definition createTopicsSection :: "json option \<Rightarrow> exn + block" where
  "createTopicsSection topicsData =
     (case segment_items ''topics'' topicsData of
        Inl e \<Rightarrow> Inl e
      | Inr allTopics \<Rightarrow>
          if length allTopics > 0
          then (case badges ''topic'' allTopics of Inl e \<Rightarrow> Inl e | Inr bs \<Rightarrow> Inr (TopicsList bs))
          else Inr TopicsEmpty)"

definition createIntentsSection :: "json option \<Rightarrow> exn + block" where
  "createIntentsSection intentsData =
     (case segment_items ''intents'' intentsData of
        Inl e \<Rightarrow> Inl e
      | Inr allIntents \<Rightarrow>
          if length allIntents > 0
          then (case badges ''intent'' allIntents of Inl e \<Rightarrow> Inl e | Inr bs \<Rightarrow> Inr (IntentsList bs))
          else Inr IntentsEmpty)"

definition sentiment_face :: "json option \<Rightarrow> face" where
  "sentiment_face v =
     (if v = Some (JStr ''positive'') then Smile
      else if v = Some (JStr ''negative'') then Frown
      else Meh)"

text \<open>
  \<^verbatim>\<open>createSentimentSection\<close>: the icon, the label and the score of the average. The
  optional line "n segments analyzed" only adds text to the section and cannot throw; it
  is left out of the block.
\<close>

definition createSentimentSection :: "json option \<Rightarrow> exn + block" where
  "createSentimentSection sentimentsData =
     (if truthy sentimentsData
      then (case dot sentimentsData ''average'' of
              Inl e \<Rightarrow> Inl e
            | Inr average \<Rightarrow>
                if truthy average
                then (case dot average ''sentiment'' of
                        Inl e \<Rightarrow> Inl e
                      | Inr l \<Rightarrow>
                          (case dot average ''sentiment_score'' of
                             Inl e \<Rightarrow> Inl e
                           | Inr None \<Rightarrow> Inr (SentimentDisplay (sentiment_face l) l None)
                           | Inr (Some (JNum n)) \<Rightarrow>
                               Inr (SentimentDisplay (sentiment_face l) l (Some n))
                           | Inr (Some _) \<Rightarrow> Inl TypeError))
                else Inr SentimentEmpty)
      else Inr SentimentEmpty)"

text \<open>
  One \<^verbatim>\<open>if (features.f && results.k) container.appendChild(create(results.k))\<close> of
  \<^verbatim>\<open>displayResults\<close>: the blocks it appends. \<^verbatim>\<open>results.k\<close> is read only when the flag
  is set.
\<close>

definition section_if ::
  "bool \<Rightarrow> json option \<Rightarrow> string \<Rightarrow> (json option \<Rightarrow> exn + block) \<Rightarrow> exn + block list" where
  "section_if flag results k create =
     (if flag
      then (case dot results k of
              Inl e \<Rightarrow> Inl e
            | Inr v \<Rightarrow>
                if truthy v
                then (case create v of Inl e \<Rightarrow> Inl e | Inr b \<Rightarrow> Inr [b])
                else Inr [])
      else Inr [])"

text \<open>Statements in sequence: the first exception ends the function.\<close>

definition and_then :: "exn + block list \<Rightarrow> exn + block list \<Rightarrow> exn + block list" where
  "and_then a b =
     (case a of
        Inl e \<Rightarrow> Inl e
      | Inr xs \<Rightarrow> (case b of Inl e \<Rightarrow> Inl e | Inr ys \<Rightarrow> Inr (xs @ ys)))"

definition results_container :: "json option \<Rightarrow> features \<Rightarrow> exn + block list" where
  "results_container results fs =
     and_then (section_if (summarize fs) results ''summary'' createSummarySection)
    (and_then (section_if (topics fs) results ''topics'' createTopicsSection)
    (and_then (section_if (sentiment fs) results ''sentiments'' createSentimentSection)
              (section_if (intents fs) results ''intents'' createIntentsSection)))"

text \<open>
  \<^verbatim>\<open>displayResults\<close> replaces the main area by the container once all sections are
  built; an exception on the way leaves the main area as it was.
\<close>

definition displayResults :: "json option \<Rightarrow> features \<Rightarrow> app \<Rightarrow> exn + app" where
  "displayResults results fs s =
     (case results_container results fs of
        Inl e \<Rightarrow> Inl e
      | Inr blocks \<Rightarrow> Inr (s\<lparr>mainContent := ResultsContainer blocks\<rparr>))"

definition displayMetadata :: "string \<Rightarrow> input_mode \<Rightarrow> string \<Rightarrow> app \<Rightarrow> app" where
  "displayMetadata requestId m input s = s\<lparr>metadata := Some (requestId, m, input)\<rparr>"

section \<open>UI state\<close>

definition showWorking :: "string \<Rightarrow> app \<Rightarrow> app" where
  "showWorking m s = s\<lparr>status := Working m\<rparr>"

definition showError :: "message \<Rightarrow> app \<Rightarrow> app" where
  "showError m s = s\<lparr>status := Failed m\<rparr>"

definition hideStatus :: "app \<Rightarrow> app" where
  "hideStatus s = s\<lparr>status := Hidden\<rparr>"

definition setFormDisabled :: "bool \<Rightarrow> app \<Rightarrow> app" where
  "setFormDisabled d s = s\<lparr>formDisabled := d\<rparr>"

definition switchInputMode :: "input_mode \<Rightarrow> app \<Rightarrow> app" where
  "switchInputMode m s = s\<lparr>inputMode := m\<rparr>"

section \<open>The analyze handler\<close>

text \<open>
  \<^verbatim>\<open>String.prototype.trim\<close> on strings of characters below 256: the white space and line
  terminators of ECMAScript in that range are tab, line feed, vertical tab, form feed,
  carriage return, space and no-break space.
\<close>

definition is_space :: "char \<Rightarrow> bool" where
  "is_space c = (of_char c \<in> {9, 10, 11, 12, 13, 32, 160 :: nat})"

definition trim :: "string \<Rightarrow> string" where
  "trim s = rev (dropWhile is_space (rev (dropWhile is_space s)))"

text \<open>
  The decimal text of \<^verbatim>\<open>Date.now()\<close> inside the template literal
  \<^verbatim>\<open>`request_${Date.now()}`\<close>. Time values are integers far below the size where
  JavaScript switches to exponent notation.
\<close>

fun digits :: "nat \<Rightarrow> string" where
  "digits n =
     (if n < 10 then [''0123456789'' ! n]
      else digits (n div 10) @ [''0123456789'' ! (n mod 10)])"

declare digits.simps [simp del]

definition show_int :: "int \<Rightarrow> string" where
  "show_int i = (if i < 0 then CHR ''-'' # digits (nat (- i)) else digits (nat i))"

definition request_id :: "int \<Rightarrow> string" where
  "request_id now = ''request_'' @ show_int now"

text \<open>What the user has put into the form when the button is clicked.\<close>

record form =
  textInput_value :: string
  urlInput_value :: string
  featureSummarize_checked :: bool
  featureTopics_checked :: bool
  featureSentiment_checked :: bool
  featureIntents_checked :: bool
  languageSelect_value :: string

text \<open>
  How \<^verbatim>\<open>fetch\<close> and \<^verbatim>\<open>response.json()\<close> end: the request fails in the network, or a
  response arrives with its \<^verbatim>\<open>ok\<close> flag and a body that is JSON text (\<open>Some\<close>) or not.
\<close>

datatype reply = Rejected | Response bool "json option"

text \<open>\<^verbatim>\<open>v?.k\<close>: \<^verbatim>\<open>undefined\<close> when \<open>v\<close> is \<^verbatim>\<open>undefined\<close> or \<^verbatim>\<open>null\<close>.\<close>

definition optional_dot :: "json option \<Rightarrow> string \<Rightarrow> exn + json option" where
  "optional_dot v k = (if v = None \<or> v = Some JNull then Inr None else dot v k)"

text \<open>
  \<open>blank v\<close>: the string \<^verbatim>\<open>String(v)\<close>, which is the message of \<^verbatim>\<open>new Error(v)\<close>, is
  empty. For a string, when it is empty; for an array, when it joins to the empty
  string; never for a number, a boolean or an object.
\<close>

fun blank :: "json \<Rightarrow> bool" where
  "blank (JStr m) = (m = [])"
| "blank (JArr []) = True"
| "blank (JArr [x]) = (x = JNull \<or> blank x)"
| "blank v = False"

text \<open>
  \<^verbatim>\<open>error.message || 'Failed to analyze text'\<close> of the \<^verbatim>\<open>catch\<close>. The browser's own
  errors carry a message text of the browser's.
\<close>

definition shown_message :: "exn \<Rightarrow> message" where
  "shown_message e =
     (case e of
        Error v \<Rightarrow>
          if blank v then Text ''Failed to analyze text''
          else (case v of JStr m \<Rightarrow> Text m | _ \<Rightarrow> Coerced v)
      | _ \<Rightarrow> EngineMessage e)"

definition mode_name :: "input_mode \<Rightarrow> string" where
  "mode_name m = (case m of TextMode \<Rightarrow> ''text'' | UrlMode \<Rightarrow> ''url'')"

definition features_json :: "features \<Rightarrow> json" where
  "features_json fs =
     JObj [(''summarize'', JBool (summarize fs)), (''topics'', JBool (topics fs)),
           (''sentiment'', JBool (sentiment fs)), (''intents'', JBool (intents fs))]"

text \<open>
  The \<^verbatim>\<open>historyEntry\<close> object, as \<^verbatim>\<open>JSON.stringify\<close> writes it: a property whose value is
  \<^verbatim>\<open>undefined\<close> is left out.
\<close>

definition historyEntry ::
  "string \<Rightarrow> string \<Rightarrow> string \<Rightarrow> input_mode \<Rightarrow> features \<Rightarrow> json option \<Rightarrow> json" where
  "historyEntry requestId stamp inputValue m fs results =
     JObj ([(''id'', JStr requestId), (''timestamp'', JStr stamp), (''input'', JStr inputValue),
            (''inputMode'', JStr (mode_name m)), (''features'', features_json fs)]
           @ (case results of None \<Rightarrow> [] | Some r \<Rightarrow> [(''results'', r)]))"

text \<open>
  The \<^verbatim>\<open>try\<close> block of \<^verbatim>\<open>handleAnalyze\<close> from the answer of \<^verbatim>\<open>fetch\<close> on. An exception
  comes with the state reached when it is thrown.
\<close>

definition handleAnalyze_try ::
  "features \<Rightarrow> string \<Rightarrow> string \<Rightarrow> string \<Rightarrow> reply \<Rightarrow> app \<Rightarrow> (exn \<times> app) + app" where
  "handleAnalyze_try fs inputValue requestId stamp r s =
     (case r of
        Rejected \<Rightarrow> Inl (NetworkError, s)
      | Response ok None \<Rightarrow> Inl (SyntaxError, s)
      | Response ok (Some data) \<Rightarrow>
          if \<not> ok
          then (case dot (Some data) ''error'' of
                  Inl e \<Rightarrow> Inl (e, s)
                | Inr err \<Rightarrow>
                    (case optional_dot err ''message'' of
                       Inl e \<Rightarrow> Inl (e, s)
                     | Inr None \<Rightarrow> Inl (Error (JStr ''Analysis failed''), s)
                     | Inr (Some m) \<Rightarrow>
                         Inl (Error (if truthy (Some m) then m else JStr ''Analysis failed''), s)))
          else
            (let s1 = hideStatus s in
             case dot (Some data) ''results'' of
               Inl e \<Rightarrow> Inl (e, s1)
             | Inr results \<Rightarrow>
                 (let s2 = saveToHistory
                             (historyEntry requestId stamp inputValue (inputMode s1) fs results) s1
                  in case displayResults results fs s2 of
                       Inl e \<Rightarrow> Inl (e, s2)
                     | Inr s3 \<Rightarrow>
                         Inr ((displayMetadata requestId (inputMode s3) inputValue s3)
                                \<lparr>activeAnalysisId := Some requestId\<rparr>))))"

definition query_params :: "features \<Rightarrow> string \<Rightarrow> (string \<times> string) list" where
  "query_params fs language =
     (if summarize fs then [(''summarize'', ''true'')] else [])
     @ (if topics fs then [(''topics'', ''true'')] else [])
     @ (if sentiment fs then [(''sentiment'', ''true'')] else [])
     @ (if intents fs then [(''intents'', ''true'')] else [])
     @ [(''language'', language)]"

text \<open>
  The first statements of \<^verbatim>\<open>handleAnalyze\<close>: the trimmed input of the current mode, and
  the \<^verbatim>\<open>features\<close> object read from the four check boxes.
\<close>

definition input_value :: "form \<Rightarrow> app \<Rightarrow> string" where
  "input_value f s =
     (if inputMode s = TextMode then trim (textInput_value f) else trim (urlInput_value f))"

definition selected :: "form \<Rightarrow> features" where
  "selected f =
     \<lparr>summarize = featureSummarize_checked f, topics = featureTopics_checked f,
      sentiment = featureSentiment_checked f, intents = featureIntents_checked f\<rparr>"

text \<open>The request that \<^verbatim>\<open>fetch\<close> sends: query string, request id header and JSON body.\<close>

definition analysis_request :: "form \<Rightarrow> int \<Rightarrow> app \<Rightarrow> request" where
  "analysis_request f now s =
     \<lparr>query = query_params (selected f) (languageSelect_value f),
      x_request_id = request_id now,
      body = (if inputMode s = TextMode then (''text'', input_value f s)
              else (''url'', input_value f s))\<rparr>"

text \<open>
  \<^verbatim>\<open>handleAnalyze\<close>, run from the click to the end of its \<^verbatim>\<open>finally\<close>: the form, the
  readings of \<^verbatim>\<open>Date.now()\<close> and \<^verbatim>\<open>toISOString()\<close>, and the answer of the one \<^verbatim>\<open>fetch\<close>
  are given. The handler is taken as one step: no other handler runs while it waits for
  the answer.
\<close>

definition handleAnalyze :: "form \<Rightarrow> int \<Rightarrow> string \<Rightarrow> reply \<Rightarrow> app \<Rightarrow> app" where
  "handleAnalyze f now stamp r s =
     (let inputValue = input_value f s
      in if inputValue = [] then showError (Text ''Please enter text or URL to analyze'') s
         else
           (let fs = selected f
            in if \<not> (summarize fs \<or> topics fs \<or> sentiment fs \<or> intents fs)
               then showError (Text ''Please select at least one intelligence feature'') s
               else
                 (let requestId = request_id now;
                      s1 = setFormDisabled True (showWorking ''Analyzing text...'' s);
                      s2 = s1\<lparr>sent := sent s1 @ [analysis_request f now s]\<rparr>
                  in setFormDisabled False
                       (case handleAnalyze_try fs inputValue requestId stamp r s2 of
                          Inl (e, s') \<Rightarrow> showError (shown_message e) s'
                        | Inr s' \<Rightarrow> s'))))"

section \<open>Notions used by the properties\<close>

text \<open>
  The page as the script finds it when it is loaded, with the given content of the
  localStorage slot: text mode, no active analysis, nothing shown, nothing sent.
\<close>

definition page_load :: "stored option \<Rightarrow> app" where
  "page_load persisted =
     \<lparr>inputMode = TextMode, activeAnalysisId = None, slot = persisted, storage_full = False,
      status = Hidden, formDisabled = False, mainContent = Untouched, metadata = None,
      sent = []\<rparr>"

text \<open>
  The \<^verbatim>\<open>id\<close> of every entry of the stored history, as \<^verbatim>\<open>renderHistory\<close> reads it to
  compare it with \<^verbatim>\<open>activeAnalysisId\<close>.
\<close>

definition entry_id :: "json \<Rightarrow> json option" where
  "entry_id entry = (case dot (Some entry) ''id'' of Inl e \<Rightarrow> None | Inr v \<Rightarrow> v)"

definition history_ids :: "app \<Rightarrow> json option list" where
  "history_ids s = (case getHistory s of JArr h \<Rightarrow> map entry_id h | _ \<Rightarrow> [])"

text \<open>A form filled with a text and one feature, and a history entry, for the examples.\<close>

definition sample_form :: form where
  "sample_form =
     \<lparr>textInput_value = '' hello '', urlInput_value = [], featureSummarize_checked = True,
      featureTopics_checked = False, featureSentiment_checked = False,
      featureIntents_checked = False, languageSelect_value = ''en''\<rparr>"

definition sample_entry :: "int \<Rightarrow> json" where
  "sample_entry now =
     historyEntry (request_id now) ''2026-01-01T00:00:00.000Z'' ''hello'' TextMode
       (selected sample_form) (Some (JObj [(''summary'', JObj [(''text'', JStr ''hi'')])]))"

definition sample_body :: json where
  "sample_body = JObj [(''results'', JObj [(''summary'', JObj [(''text'', JStr ''hi'')])])]"

text \<open>The four features in the order of \<^verbatim>\<open>displayResults\<close>, and what belongs to each.\<close>

datatype feature = Summarize | Topics | Sentiment | Intents

definition canonical :: "feature list" where
  "canonical = [Summarize, Topics, Sentiment, Intents]"

definition requested :: "features \<Rightarrow> feature \<Rightarrow> bool" where
  "requested fs k =
     (case k of Summarize \<Rightarrow> summarize fs | Topics \<Rightarrow> topics fs
      | Sentiment \<Rightarrow> sentiment fs | Intents \<Rightarrow> intents fs)"

definition result_key :: "feature \<Rightarrow> string" where
  "result_key k =
     (case k of Summarize \<Rightarrow> ''summary'' | Topics \<Rightarrow> ''topics''
      | Sentiment \<Rightarrow> ''sentiments'' | Intents \<Rightarrow> ''intents'')"

definition result_field :: "json option \<Rightarrow> feature \<Rightarrow> json option" where
  "result_field results k = (case dot results (result_key k) of Inl e \<Rightarrow> None | Inr v \<Rightarrow> v)"

definition block_feature :: "block \<Rightarrow> feature" where
  "block_feature b =
     (case b of
        SummaryText v \<Rightarrow> Summarize | SummaryEmpty \<Rightarrow> Summarize
      | TopicsList bs \<Rightarrow> Topics | TopicsEmpty \<Rightarrow> Topics
      | SentimentDisplay i l n \<Rightarrow> Sentiment | SentimentEmpty \<Rightarrow> Sentiment
      | IntentsList bs \<Rightarrow> Intents | IntentsEmpty \<Rightarrow> Intents)"

definition empty_block :: "feature \<Rightarrow> block" where
  "empty_block k =
     (case k of Summarize \<Rightarrow> SummaryEmpty | Topics \<Rightarrow> TopicsEmpty
      | Sentiment \<Rightarrow> SentimentEmpty | Intents \<Rightarrow> IntentsEmpty)"

text \<open>
  A result field that is there but holds nothing to show: a summary without text, topics
  or intents without any item in any segment, sentiments without an average.
\<close>

definition structurally_empty :: "feature \<Rightarrow> json option \<Rightarrow> bool" where
  "structurally_empty k v =
     (case k of
        Summarize \<Rightarrow> \<not> truthy (case dot v ''text'' of Inl e \<Rightarrow> None | Inr t \<Rightarrow> t)
      | Topics \<Rightarrow> segment_items ''topics'' v = Inr []
      | Sentiment \<Rightarrow> \<not> truthy (case dot v ''average'' of Inl e \<Rightarrow> None | Inr a \<Rightarrow> a)
      | Intents \<Rightarrow> segment_items ''intents'' v = Inr [])"


section \<open>Properties of the history store\<close>

lemma getHistory_cases:
  "getHistory s = (case slot s of Some (JsonText v) \<Rightarrow> v | _ \<Rightarrow> JArr [])"
  by (simp add: getHistory_def getHistory_try_def JSON_parse_def
      split: option.splits stored.splits)

lemma getHistory_slot: "slot s = slot t \<Longrightarrow> getHistory s = getHistory t"
  by (simp add: getHistory_cases)

lemma saveToHistory_cases:
  "saveToHistory e s =
     (case getHistory s of
        JArr h \<Rightarrow> if storage_full s then s
                  else s\<lparr>slot := Some (JsonText (JArr (take MAX_HISTORY_ENTRIES (e # h))))\<rparr>
      | _ \<Rightarrow> s)"
  by (simp add: saveToHistory_def saveToHistory_try_def setItem_def split: json.splits)

lemma saveToHistory_frame:
  "activeAnalysisId (saveToHistory e s) = activeAnalysisId s"
  "storage_full (saveToHistory e s) = storage_full s"
  "sent (saveToHistory e s) = sent s"
  "status (saveToHistory e s) = status s"
  "formDisabled (saveToHistory e s) = formDisabled s"
  "mainContent (saveToHistory e s) = mainContent s"
  "metadata (saveToHistory e s) = metadata s"
  "inputMode (saveToHistory e s) = inputMode s"
  by (simp_all add: saveToHistory_cases split: json.splits)

lemma saveToHistory_full: "storage_full s \<Longrightarrow> saveToHistory e s = s"
  by (simp add: saveToHistory_cases split: json.splits)

lemma getHistory_saveToHistory:
  assumes "getHistory s = JArr h" and "\<not> storage_full s"
  shows "getHistory (saveToHistory e s) = JArr (take MAX_HISTORY_ENTRIES (e # h))"
  using assms by (simp add: saveToHistory_cases getHistory_cases)

lemma take_take_cons: "take n (e # take n h) = take n (e # h)"
  by (cases n) simp_all

lemma storage_full_fold: "storage_full (fold saveToHistory es s) = storage_full s"
  by (induction es arbitrary: s) (simp_all add: saveToHistory_frame)

lemma getHistory_fold:
  assumes "getHistory s = JArr h" and "\<not> storage_full s" and "es \<noteq> []"
  shows "getHistory (fold saveToHistory es s) = JArr (take MAX_HISTORY_ENTRIES (rev es @ h))"
  using assms(3)
proof (induction es rule: rev_induct)
  case Nil
  then show ?case by simp
next
  case (snoc e es)
  have room: "\<not> storage_full (fold saveToHistory es s)"
    using assms(2) by (simp add: storage_full_fold)
  show ?case
  proof (cases "es = []")
    case True
    then show ?thesis using assms(1,2) by (simp add: getHistory_saveToHistory)
  next
    case False
    then have "getHistory (fold saveToHistory es s)
        = JArr (take MAX_HISTORY_ENTRIES (rev es @ h))"
      by (rule snoc.IH)
    then have "getHistory (saveToHistory e (fold saveToHistory es s))
        = JArr (take MAX_HISTORY_ENTRIES (e # take MAX_HISTORY_ENTRIES (rev es @ h)))"
      using room by (rule getHistory_saveToHistory)
    moreover have "fold saveToHistory (es @ [e]) s = saveToHistory e (fold saveToHistory es s)"
      by simp
    moreover have "rev (es @ [e]) @ h = e # (rev es @ h)"
      by simp
    ultimately show ?thesis by (simp only: take_take_cons)
  qed
qed

lemma entry_id_historyEntry:
  "entry_id (historyEntry requestId stamp inputValue m fs results) = Some (JStr requestId)"
  by (simp add: entry_id_def historyEntry_def)

subsection \<open>Clearing\<close>

text \<open>
  C8. Whatever the history and the active analysis were, a confirmed clear leaves the
  slot absent, so that the history read back is the empty array (it has no entry: the
  count is 0), and leaves no active analysis.
\<close>

theorem clear_empties_history_and_selection:
  "getHistory (handleClearHistory True s) = JArr []
   \<and> history_ids (handleClearHistory True s) = []
   \<and> slot (handleClearHistory True s) = None
   \<and> activeAnalysisId (handleClearHistory True s) = None"
  by (simp add: handleClearHistory_def removeItem_def getHistory_cases history_ids_def)

text \<open>
  C8, an instance: a page that holds one entry, which is the active one, is cleared.
\<close>

theorem clear_empties_history_and_selection_witness:
  "getHistory (handleClearHistory True
      ((page_load (Some (JsonText (JArr [sample_entry 1]))))
         \<lparr>activeAnalysisId := Some ''request_1''\<rparr>)) = JArr []
   \<and> activeAnalysisId (handleClearHistory True
      ((page_load (Some (JsonText (JArr [sample_entry 1]))))
         \<lparr>activeAnalysisId := Some ''request_1''\<rparr>)) = None"
  using clear_empties_history_and_selection
    [of "(page_load (Some (JsonText (JArr [sample_entry 1]))))
           \<lparr>activeAnalysisId := Some ''request_1''\<rparr>"]
  by blast

subsection \<open>Loading\<close>




subsection \<open>Saving and reading back\<close>



subsection \<open>Capacity\<close>

text \<open>
  C2. Over a history that reads as an array, with a storage that takes the writes, more
  than ten entries saved one after the other leave exactly ten entries, which are the
  ten saved last, newest first.
\<close>

theorem history_keeps_ten_most_recent:
  assumes "getHistory s = JArr h" and "\<not> storage_full s"
    and "length es > MAX_HISTORY_ENTRIES"
  shows "getHistory (fold saveToHistory es s) = JArr (take MAX_HISTORY_ENTRIES (rev es))
         \<and> length (take MAX_HISTORY_ENTRIES (rev es)) = 10"
proof -
  from assms(3) have "es \<noteq> []" by auto
  with assms(1,2)
  have "getHistory (fold saveToHistory es s) = JArr (take MAX_HISTORY_ENTRIES (rev es @ h))"
    by (rule getHistory_fold)
  moreover have "take MAX_HISTORY_ENTRIES (rev es @ h) = take MAX_HISTORY_ENTRIES (rev es)"
    using assms(3) by simp
  moreover have "length (take MAX_HISTORY_ENTRIES (rev es)) = 10"
    using assms(3) by (simp add: MAX_HISTORY_ENTRIES_def)
  ultimately show ?thesis by simp
qed

text \<open>
  C2, an instance: eleven entries saved on a fresh page; the first one is gone.
\<close>

theorem history_keeps_ten_most_recent_witness:
  "getHistory (fold saveToHistory (map sample_entry [1, 2, 3, 4, 5, 6, 7, 8, 9, 10, 11])
      (page_load None))
   = JArr (map sample_entry [11, 10, 9, 8, 7, 6, 5, 4, 3, 2])"
proof -
  let ?es = "map sample_entry [1, 2, 3, 4, 5, 6, 7, 8, 9, 10, 11]"
  have h1: "getHistory (page_load None) = JArr []"
    by (simp add: getHistory_cases page_load_def)
  have h2: "\<not> storage_full (page_load None)"
    by (simp add: page_load_def)
  have h3: "length ?es > MAX_HISTORY_ENTRIES"
    by (simp add: MAX_HISTORY_ENTRIES_def)
  have "take MAX_HISTORY_ENTRIES (rev ?es) = map sample_entry [11, 10, 9, 8, 7, 6, 5, 4, 3, 2]"
    by (simp add: MAX_HISTORY_ENTRIES_def)
  with history_keeps_ten_most_recent [OF h1 h2 h3] show ?thesis by simp
qed

section \<open>Properties of the results display\<close>

lemma and_then_Inr:
  assumes "and_then a b = Inr xs"
  obtains ys zs where "a = Inr ys" and "b = Inr zs" and "xs = ys @ zs"
  using assms by (auto simp add: and_then_def split: sum.splits)

lemma section_if_feature:
  assumes "section_if flag results (result_key k) create = Inr bs"
    and "\<And>v b. create v = Inr b \<Longrightarrow> block_feature b = k"
    and "\<And>v b. create v = Inr b \<Longrightarrow> structurally_empty k v \<Longrightarrow> b = empty_block k"
  shows "map block_feature bs = (if flag \<and> truthy (result_field results k) then [k] else [])"
    and "flag \<and> truthy (result_field results k) \<and> structurally_empty k (result_field results k)
         \<Longrightarrow> empty_block k \<in> set bs"
  using assms
  by (auto simp add: section_if_def result_field_def split: if_splits sum.splits)

lemma summary_feature:
  "createSummarySection v = Inr b \<Longrightarrow> block_feature b = Summarize"
  by (auto simp add: createSummarySection_def block_feature_def split: sum.splits option.splits)

lemma summary_empty:
  "createSummarySection v = Inr b \<Longrightarrow> structurally_empty Summarize v \<Longrightarrow> b = empty_block Summarize"
  by (auto simp add: createSummarySection_def structurally_empty_def empty_block_def
      split: sum.splits option.splits)

lemma topics_feature:
  "createTopicsSection v = Inr b \<Longrightarrow> block_feature b = Topics"
  by (auto simp add: createTopicsSection_def block_feature_def split: sum.splits if_splits)

lemma topics_empty:
  "createTopicsSection v = Inr b \<Longrightarrow> structurally_empty Topics v \<Longrightarrow> b = empty_block Topics"
  by (auto simp add: createTopicsSection_def structurally_empty_def empty_block_def
      split: sum.splits)

lemma intents_feature:
  "createIntentsSection v = Inr b \<Longrightarrow> block_feature b = Intents"
  by (auto simp add: createIntentsSection_def block_feature_def split: sum.splits if_splits)

lemma intents_empty:
  "createIntentsSection v = Inr b \<Longrightarrow> structurally_empty Intents v \<Longrightarrow> b = empty_block Intents"
  by (auto simp add: createIntentsSection_def structurally_empty_def empty_block_def
      split: sum.splits)

lemma sentiment_feature:
  "createSentimentSection v = Inr b \<Longrightarrow> block_feature b = Sentiment"
  by (auto simp add: createSentimentSection_def block_feature_def
      split: sum.splits if_splits option.splits json.splits)

lemma sentiment_empty:
  "createSentimentSection v = Inr b \<Longrightarrow> structurally_empty Sentiment v \<Longrightarrow> b = empty_block Sentiment"
  by (auto simp add: createSentimentSection_def structurally_empty_def empty_block_def
      split: sum.splits if_splits)

text \<open>Reading a property of a truthy value does not throw.\<close>

lemma dot_truthy: "truthy v \<Longrightarrow> \<exists>w. dot v k = Inr w"
  by (cases "(v, k)" rule: dot.cases) simp_all

lemma summary_of_empty:
  assumes "truthy v" and "structurally_empty Summarize v"
  shows "createSummarySection v = Inr SummaryEmpty"
proof -
  from assms(1) obtain w where "dot v ''text'' = Inr w" using dot_truthy by blast
  with assms(2) show ?thesis
    by (cases w) (simp_all add: createSummarySection_def structurally_empty_def)
qed

lemma topics_of_empty:
  "structurally_empty Topics v \<Longrightarrow> createTopicsSection v = Inr TopicsEmpty"
  by (simp add: createTopicsSection_def structurally_empty_def)

lemma intents_of_empty:
  "structurally_empty Intents v \<Longrightarrow> createIntentsSection v = Inr IntentsEmpty"
  by (simp add: createIntentsSection_def structurally_empty_def)

lemma sentiment_of_empty:
  assumes "truthy v" and "structurally_empty Sentiment v"
  shows "createSentimentSection v = Inr SentimentEmpty"
proof -
  from assms(1) obtain w where "dot v ''average'' = Inr w" using dot_truthy by blast
  with assms show ?thesis
    by (simp add: createSentimentSection_def structurally_empty_def)
qed

lemma section_if_of_empty:
  assumes "flag \<and> truthy (map_of kvs (result_key k))
      \<longrightarrow> create (map_of kvs (result_key k)) = Inr (empty_block k)"
  shows "section_if flag (Some (JObj kvs)) (result_key k) create
     = Inr (if flag \<and> truthy (map_of kvs (result_key k)) then [empty_block k] else [])"
  using assms by (simp add: section_if_def)

lemma container_of_empty:
  assumes "\<forall>k. requested fs k \<and> truthy (map_of kvs (result_key k))
      \<longrightarrow> structurally_empty k (map_of kvs (result_key k))"
  shows "results_container (Some (JObj kvs)) fs
     = Inr (map empty_block
         (filter (\<lambda>k. requested fs k \<and> truthy (map_of kvs (result_key k))) canonical))"
proof -
  have s1: "section_if (summarize fs) (Some (JObj kvs)) (result_key Summarize) createSummarySection
       = Inr (if summarize fs \<and> truthy (map_of kvs (result_key Summarize))
              then [empty_block Summarize] else [])"
    using assms [rule_format, of Summarize]
    by (intro section_if_of_empty) (simp add: requested_def summary_of_empty empty_block_def)
  have s2: "section_if (topics fs) (Some (JObj kvs)) (result_key Topics) createTopicsSection
       = Inr (if topics fs \<and> truthy (map_of kvs (result_key Topics))
              then [empty_block Topics] else [])"
    using assms [rule_format, of Topics]
    by (intro section_if_of_empty) (simp add: requested_def topics_of_empty empty_block_def)
  have s3: "section_if (sentiment fs) (Some (JObj kvs)) (result_key Sentiment) createSentimentSection
       = Inr (if sentiment fs \<and> truthy (map_of kvs (result_key Sentiment))
              then [empty_block Sentiment] else [])"
    using assms [rule_format, of Sentiment]
    by (intro section_if_of_empty) (simp add: requested_def sentiment_of_empty empty_block_def)
  have s4: "section_if (intents fs) (Some (JObj kvs)) (result_key Intents) createIntentsSection
       = Inr (if intents fs \<and> truthy (map_of kvs (result_key Intents))
              then [empty_block Intents] else [])"
    using assms [rule_format, of Intents]
    by (intro section_if_of_empty) (simp add: requested_def intents_of_empty empty_block_def)
  have k: "result_key Summarize = ''summary''" "result_key Topics = ''topics''"
    "result_key Sentiment = ''sentiments''" "result_key Intents = ''intents''"
    by (simp_all add: result_key_def)
  show ?thesis
    unfolding results_container_def
    using s1 s2 s3 s4
    by (simp only: k [symmetric]) (simp add: and_then_def canonical_def requested_def)
qed

lemma container_order:
  assumes "results_container results fs = Inr blocks"
  shows "map block_feature blocks
           = filter (\<lambda>k. requested fs k \<and> truthy (result_field results k)) canonical
         \<and> (\<forall>k. requested fs k \<and> truthy (result_field results k)
                  \<and> structurally_empty k (result_field results k)
                \<longrightarrow> empty_block k \<in> set blocks)"
proof -
  from assms obtain b1 r1 where
    s1: "section_if (summarize fs) results (result_key Summarize) createSummarySection = Inr b1"
    and r1: "and_then (section_if (topics fs) results ''topics'' createTopicsSection)
    (and_then (section_if (sentiment fs) results ''sentiments'' createSentimentSection)
              (section_if (intents fs) results ''intents'' createIntentsSection)) = Inr r1"
    and e1: "blocks = b1 @ r1"
    unfolding results_container_def by (auto elim: and_then_Inr simp add: result_key_def)
  from r1 obtain b2 r2 where
    s2: "section_if (topics fs) results (result_key Topics) createTopicsSection = Inr b2"
    and r2: "and_then (section_if (sentiment fs) results ''sentiments'' createSentimentSection)
              (section_if (intents fs) results ''intents'' createIntentsSection) = Inr r2"
    and e2: "r1 = b2 @ r2"
    by (auto elim: and_then_Inr simp add: result_key_def)
  from r2 obtain b3 b4 where
    s3: "section_if (sentiment fs) results (result_key Sentiment) createSentimentSection = Inr b3"
    and s4: "section_if (intents fs) results (result_key Intents) createIntentsSection = Inr b4"
    and e3: "r2 = b3 @ b4"
    by (auto elim: and_then_Inr simp add: result_key_def)
  have blocks: "blocks = b1 @ b2 @ b3 @ b4" by (simp add: e1 e2 e3)
  note f1 = section_if_feature [OF s1 summary_feature summary_empty]
  note f2 = section_if_feature [OF s2 topics_feature topics_empty]
  note f3 = section_if_feature [OF s3 sentiment_feature sentiment_empty]
  note f4 = section_if_feature [OF s4 intents_feature intents_empty]
  have order: "map block_feature blocks
           = filter (\<lambda>k. requested fs k \<and> truthy (result_field results k)) canonical"
    by (simp add: blocks f1(1) f2(1) f3(1) f4(1) canonical_def requested_def)
  have empty: "empty_block k \<in> set blocks"
    if "requested fs k \<and> truthy (result_field results k)
          \<and> structurally_empty k (result_field results k)" for k
  proof (cases k)
    case Summarize
    with that f1(2) show ?thesis by (simp add: blocks requested_def)
  next
    case Topics
    with that f2(2) show ?thesis by (simp add: blocks requested_def)
  next
    case Sentiment
    with that f3(2) show ?thesis by (simp add: blocks requested_def)
  next
    case Intents
    with that f4(2) show ?thesis by (simp add: blocks requested_def)
  qed
  from order empty show ?thesis by blast
qed

text \<open>
  C3, as stated, fails: with all four features requested and a result object that has
  none of the four fields, \<^verbatim>\<open>displayResults\<close> builds a container without any block.
\<close>

theorem absent_field_gets_no_block_counterexample:
  "results_container (Some (JObj []))
     \<lparr>summarize = True, topics = True, sentiment = True, intents = True\<rparr> = Inr []"
  by (simp add: results_container_def section_if_def and_then_def)

text \<open>
  C3, amended. Whenever \<^verbatim>\<open>displayResults\<close> completes, its container holds exactly one
  block for each feature whose flag is true and whose result field is present (truthy),
  in the order summarize, topics, sentiment, intents; a feature whose flag is false gets
  no block, and neither does a requested feature whose field is absent. A field that is
  present but structurally empty gets the explicit empty-state block. And
  \<^verbatim>\<open>displayResults\<close> does complete, with exactly these empty-state blocks, on every result
  object whose requested fields are each absent or structurally empty.
\<close>

theorem blocks_for_requested_present_features:
  "(results_container results fs = Inr blocks \<longrightarrow>
      map block_feature blocks
        = filter (\<lambda>k. requested fs k \<and> truthy (result_field results k)) canonical
      \<and> (\<forall>k. requested fs k \<and> truthy (result_field results k)
               \<and> structurally_empty k (result_field results k)
             \<longrightarrow> empty_block k \<in> set blocks))
   \<and> ((\<forall>k. requested fs k \<and> truthy (map_of kvs (result_key k))
             \<longrightarrow> structurally_empty k (map_of kvs (result_key k))) \<longrightarrow>
      results_container (Some (JObj kvs)) fs
        = Inr (map empty_block
            (filter (\<lambda>k. requested fs k \<and> truthy (map_of kvs (result_key k))) canonical)))"
  using container_order [of results fs blocks] container_of_empty [of fs kvs]
  by blast

text \<open>
  C3, an instance: summary, topics and intents requested; the result has a summary with
  a text, topics without segments and no intents field.
\<close>

theorem blocks_for_requested_present_features_witness:
  "results_container
     (Some (JObj [(''summary'', JObj [(''text'', JStr ''hi'')]),
                  (''topics'', JObj [(''segments'', JArr [])])]))
     \<lparr>summarize = True, topics = True, sentiment = False, intents = True\<rparr>
     = Inr [SummaryText (JStr ''hi''), TopicsEmpty]
   \<and> map block_feature [SummaryText (JStr ''hi''), TopicsEmpty] = [Summarize, Topics]
   \<and> empty_block Topics \<in> set [SummaryText (JStr ''hi''), TopicsEmpty]"
proof -
  let ?r = "Some (JObj [(''summary'', JObj [(''text'', JStr ''hi'')]),
                  (''topics'', JObj [(''segments'', JArr [])])])"
  let ?fs = "\<lparr>summarize = True, topics = True, sentiment = False, intents = True\<rparr>"
  let ?bs = "[SummaryText (JStr ''hi''), TopicsEmpty]"
  have run: "results_container ?r ?fs = Inr ?bs"
    by (simp add: results_container_def section_if_def and_then_def createSummarySection_def
        createTopicsSection_def segment_items_def)
  have sel: "filter (\<lambda>k. requested ?fs k \<and> truthy (result_field ?r k)) canonical
      = [Summarize, Topics]"
    by (simp add: canonical_def requested_def result_field_def result_key_def)
  have emp: "requested ?fs Topics \<and> truthy (result_field ?r Topics)
      \<and> structurally_empty Topics (result_field ?r Topics)"
    by (simp add: requested_def result_field_def result_key_def structurally_empty_def
        segment_items_def)
  from blocks_for_requested_present_features [of ?r ?fs ?bs "[]"] run
  have "map block_feature ?bs
        = filter (\<lambda>k. requested ?fs k \<and> truthy (result_field ?r k)) canonical"
    and "\<forall>k. requested ?fs k \<and> truthy (result_field ?r k)
               \<and> structurally_empty k (result_field ?r k)
             \<longrightarrow> empty_block k \<in> set ?bs"
    by blast+
  with run sel emp show ?thesis by (simp only: simp_thms)
qed

section \<open>Properties of the analyze handler\<close>

lemma handleAnalyze_empty_input:
  "input_value f s = [] \<Longrightarrow>
   handleAnalyze f now stamp r s
     = s\<lparr>status := Failed (Text ''Please enter text or URL to analyze'')\<rparr>"
  by (simp add: handleAnalyze_def showError_def)

lemma handleAnalyze_no_feature:
  "input_value f s \<noteq> [] \<Longrightarrow>
   \<not> (featureSummarize_checked f \<or> featureTopics_checked f
      \<or> featureSentiment_checked f \<or> featureIntents_checked f) \<Longrightarrow>
   handleAnalyze f now stamp r s
     = s\<lparr>status := Failed (Text ''Please select at least one intelligence feature'')\<rparr>"
  by (simp add: handleAnalyze_def showError_def selected_def)

lemma handleAnalyze_dispatch:
  assumes "input_value f s \<noteq> []"
    and "featureSummarize_checked f \<or> featureTopics_checked f
      \<or> featureSentiment_checked f \<or> featureIntents_checked f"
  shows "handleAnalyze f now stamp r s =
     (case handleAnalyze_try (selected f) (input_value f s) (request_id now) stamp r
             (s\<lparr>status := Working ''Analyzing text...'', formDisabled := True,
                sent := sent s @ [analysis_request f now s]\<rparr>) of
        Inl (e, s') \<Rightarrow> s'\<lparr>status := Failed (shown_message e), formDisabled := False\<rparr>
      | Inr s' \<Rightarrow> s'\<lparr>formDisabled := False\<rparr>)"
proof -
  have "summarize (selected f) \<or> topics (selected f) \<or> sentiment (selected f)
      \<or> intents (selected f)"
    using assms(2) by (simp add: selected_def)
  with assms(1) show ?thesis
    by (auto simp add: handleAnalyze_def Let_def showError_def
        setFormDisabled_def showWorking_def split: sum.splits prod.splits)
qed


lemma try_ok:
  assumes "dot (Some d) ''results'' = Inr results"
    and "results_container results fs = Inr blocks"
  shows "handleAnalyze_try fs iv rid stamp (Response True (Some d)) s =
     Inr ((saveToHistory (historyEntry rid stamp iv (inputMode s) fs results)
             (s\<lparr>status := Hidden\<rparr>))
            \<lparr>mainContent := ResultsContainer blocks, metadata := Some (rid, inputMode s, iv),
             activeAnalysisId := Some rid\<rparr>)"
  using assms
  by (simp add: handleAnalyze_try_def hideStatus_def displayResults_def displayMetadata_def
      saveToHistory_frame Let_def)

lemma try_sent:
  "handleAnalyze_try fs iv rid stamp r s = Inl (e, s') \<Longrightarrow> sent s' = sent s"
  "handleAnalyze_try fs iv rid stamp r s = Inr s' \<Longrightarrow> sent s' = sent s"
  by (auto simp add: handleAnalyze_try_def hideStatus_def displayResults_def displayMetadata_def
      saveToHistory_frame Let_def
      split: reply.splits option.splits sum.splits if_splits)

text \<open>The state after a dispatch that succeeds and whose results are displayed.\<close>

lemma handleAnalyze_ok:
  assumes "input_value f s \<noteq> []"
    and "featureSummarize_checked f \<or> featureTopics_checked f
      \<or> featureSentiment_checked f \<or> featureIntents_checked f"
    and "dot (Some d) ''results'' = Inr results"
    and "results_container results (selected f) = Inr blocks"
  shows "handleAnalyze f now stamp (Response True (Some d)) s =
     (saveToHistory
        (historyEntry (request_id now) stamp (input_value f s) (inputMode s) (selected f) results)
        (s\<lparr>formDisabled := True, sent := sent s @ [analysis_request f now s],
           status := Hidden\<rparr>))
       \<lparr>mainContent := ResultsContainer blocks,
        metadata := Some (request_id now, inputMode s, input_value f s),
        activeAnalysisId := Some (request_id now), formDisabled := False\<rparr>"
  by (simp add: handleAnalyze_dispatch [OF assms(1,2)] try_ok [OF assms(3,4)])

lemma handleAnalyze_ok_active:
  assumes "input_value f s \<noteq> []"
    and "featureSummarize_checked f \<or> featureTopics_checked f
      \<or> featureSentiment_checked f \<or> featureIntents_checked f"
    and "dot (Some d) ''results'' = Inr results"
    and "results_container results (selected f) = Inr blocks"
  shows "activeAnalysisId (handleAnalyze f now stamp (Response True (Some d)) s)
     = Some (request_id now)"
  by (simp add: handleAnalyze_ok [OF assms])

lemma handleAnalyze_ok_slot:
  assumes "input_value f s \<noteq> []"
    and "featureSummarize_checked f \<or> featureTopics_checked f
      \<or> featureSentiment_checked f \<or> featureIntents_checked f"
    and "dot (Some d) ''results'' = Inr results"
    and "results_container results (selected f) = Inr blocks"
  shows "slot (handleAnalyze f now stamp (Response True (Some d)) s)
     = slot (saveToHistory
        (historyEntry (request_id now) stamp (input_value f s) (inputMode s) (selected f) results)
        s)"
  by (simp add: handleAnalyze_ok [OF assms] saveToHistory_cases getHistory_cases
      split: option.splits stored.splits json.splits)

lemma handleAnalyze_ok_frame:
  assumes "input_value f s \<noteq> []"
    and "featureSummarize_checked f \<or> featureTopics_checked f
      \<or> featureSentiment_checked f \<or> featureIntents_checked f"
    and "dot (Some d) ''results'' = Inr results"
    and "results_container results (selected f) = Inr blocks"
  shows "inputMode (handleAnalyze f now stamp (Response True (Some d)) s) = inputMode s
     \<and> storage_full (handleAnalyze f now stamp (Response True (Some d)) s) = storage_full s"
  by (simp add: handleAnalyze_ok [OF assms] saveToHistory_frame)

lemma sample_input: "input_value sample_form (page_load p) = ''hello''"
  by (simp add: input_value_def sample_form_def page_load_def trim_def is_space_def)

lemma sample_input_active:
  "input_value sample_form ((page_load p)\<lparr>activeAnalysisId := a\<rparr>) = ''hello''"
  by (simp add: input_value_def sample_form_def page_load_def trim_def is_space_def)

lemma sample_input_full:
  "input_value sample_form ((page_load p)\<lparr>storage_full := True\<rparr>) = ''hello''"
  by (simp add: input_value_def sample_form_def page_load_def trim_def is_space_def)

lemma entry_id_sample: "entry_id (sample_entry n) = Some (JStr (request_id n))"
  by (simp add: sample_entry_def entry_id_historyEntry)

lemma sample_checked:
  "featureSummarize_checked sample_form \<or> featureTopics_checked sample_form
   \<or> featureSentiment_checked sample_form \<or> featureIntents_checked sample_form"
  by (simp add: sample_form_def)

lemma sample_results:
  "dot (Some sample_body) ''results'' = Inr (Some (JObj [(''summary'', JObj [(''text'', JStr ''hi'')])]))"
  by (simp add: sample_body_def)

lemma sample_container:
  "results_container (Some (JObj [(''summary'', JObj [(''text'', JStr ''hi'')])]))
     (selected sample_form) = Inr [SummaryText (JStr ''hi'')]"
  by (simp add: results_container_def section_if_def and_then_def createSummarySection_def
      selected_def sample_form_def)

subsection \<open>Selection and eviction\<close>

text \<open>
  C1, as stated, fails. A history of ten entries whose oldest entry, \<^verbatim>\<open>request_1\<close>, is
  the active one: after \<^verbatim>\<open>saveToHistory\<close> of an eleventh entry the history holds ten
  entries without \<^verbatim>\<open>request_1\<close>, and \<^verbatim>\<open>activeAnalysisId\<close> is still \<^verbatim>\<open>request_1\<close>.
\<close>

theorem eviction_leaves_selection_counterexample:
  "activeAnalysisId
     (saveToHistory (sample_entry 11)
        ((page_load (Some (JsonText (JArr (map sample_entry [10, 9, 8, 7, 6, 5, 4, 3, 2, 1])))))
           \<lparr>activeAnalysisId := Some ''request_1''\<rparr>))
     = Some ''request_1''
   \<and> history_ids
       (saveToHistory (sample_entry 11)
          ((page_load (Some (JsonText (JArr (map sample_entry [10, 9, 8, 7, 6, 5, 4, 3, 2, 1])))))
             \<lparr>activeAnalysisId := Some ''request_1''\<rparr>))
     = map (\<lambda>n. Some (JStr (request_id n))) [11, 10, 9, 8, 7, 6, 5, 4, 3, 2]
   \<and> Some (JStr ''request_1'')
       \<notin> set (map (\<lambda>n. Some (JStr (request_id n))) [11, 10, 9, 8, 7, 6, 5, 4, 3, 2])"
proof -
  let ?s = "(page_load (Some (JsonText (JArr (map sample_entry [10, 9, 8, 7, 6, 5, 4, 3, 2, 1])))))
           \<lparr>activeAnalysisId := Some ''request_1''\<rparr>"
  have act: "activeAnalysisId (saveToHistory (sample_entry 11) ?s) = Some ''request_1''"
    by (simp add: saveToHistory_frame)
  have h: "getHistory ?s = JArr (map sample_entry [10, 9, 8, 7, 6, 5, 4, 3, 2, 1])"
    by (simp add: getHistory_cases page_load_def)
  have "\<not> storage_full ?s"
    by (simp add: page_load_def)
  with h have "getHistory (saveToHistory (sample_entry 11) ?s)
      = JArr (take MAX_HISTORY_ENTRIES
          (sample_entry 11 # map sample_entry [10, 9, 8, 7, 6, 5, 4, 3, 2, 1]))"
    by (rule getHistory_saveToHistory)
  then have ids: "history_ids (saveToHistory (sample_entry 11) ?s)
      = map (\<lambda>n. Some (JStr (request_id n))) [11, 10, 9, 8, 7, 6, 5, 4, 3, 2]"
    by (simp add: history_ids_def MAX_HISTORY_ENTRIES_def sample_entry_def
        entry_id_historyEntry)
  have "Some (JStr ''request_1'')
       \<notin> set (map (\<lambda>n. Some (JStr (request_id n))) [11, 10, 9, 8, 7, 6, 5, 4, 3, 2])"
    by (simp add: request_id_def show_int_def digits.simps)
  with act ids show ?thesis by simp
qed

text \<open>
  C1, amended. \<^verbatim>\<open>saveToHistory\<close> never changes \<^verbatim>\<open>activeAnalysisId\<close>, whether it evicts
  an entry or not. When a dispatch succeeds and its results are displayed,
  \<^verbatim>\<open>handleAnalyze\<close> sets \<^verbatim>\<open>activeAnalysisId\<close> to the id of the new entry after the
  insert and the display; and when the history read as an array and the storage took the
  write, that id is the id of the first entry of the history.
\<close>

theorem selection_replaced_at_end_of_dispatch:
  assumes "input_value f s \<noteq> []"
    and "featureSummarize_checked f \<or> featureTopics_checked f
      \<or> featureSentiment_checked f \<or> featureIntents_checked f"
    and "dot (Some d) ''results'' = Inr results"
    and "results_container results (selected f) = Inr blocks"
    and "getHistory s = JArr h" and "\<not> storage_full s"
  shows "activeAnalysisId (saveToHistory e s) = activeAnalysisId s
     \<and> activeAnalysisId (handleAnalyze f now stamp (Response True (Some d)) s)
         = Some (request_id now)
     \<and> history_ids (handleAnalyze f now stamp (Response True (Some d)) s)
         = take MAX_HISTORY_ENTRIES (Some (JStr (request_id now)) # history_ids s)"
proof -
  let ?entry = "historyEntry (request_id now) stamp (input_value f s) (inputMode s)
      (selected f) results"
  have "slot (handleAnalyze f now stamp (Response True (Some d)) s)
      = slot (saveToHistory ?entry s)"
    using assms(1-4) by (rule handleAnalyze_ok_slot)
  then have "getHistory (handleAnalyze f now stamp (Response True (Some d)) s)
      = getHistory (saveToHistory ?entry s)"
    by (rule getHistory_slot)
  also have "\<dots> = JArr (take MAX_HISTORY_ENTRIES (?entry # h))"
    using assms(5,6) by (rule getHistory_saveToHistory)
  finally have "history_ids (handleAnalyze f now stamp (Response True (Some d)) s)
         = take MAX_HISTORY_ENTRIES (Some (JStr (request_id now)) # history_ids s)"
    using assms(5) by (simp add: history_ids_def take_map [symmetric] entry_id_historyEntry)
  moreover have "activeAnalysisId (handleAnalyze f now stamp (Response True (Some d)) s)
         = Some (request_id now)"
    using assms(1-4) by (rule handleAnalyze_ok_active)
  ultimately show ?thesis by (simp add: saveToHistory_frame)
qed

text \<open>
  C1, an instance: the page of the counterexample, on which a whole dispatch succeeds.
\<close>

theorem selection_replaced_at_end_of_dispatch_witness:
  "activeAnalysisId
     (handleAnalyze sample_form 11 ''2026-01-02T00:00:00.000Z'' (Response True (Some sample_body))
        ((page_load (Some (JsonText (JArr (map sample_entry [10, 9, 8, 7, 6, 5, 4, 3, 2, 1])))))
           \<lparr>activeAnalysisId := Some ''request_1''\<rparr>))
     = Some ''request_11''
   \<and> history_ids
     (handleAnalyze sample_form 11 ''2026-01-02T00:00:00.000Z'' (Response True (Some sample_body))
        ((page_load (Some (JsonText (JArr (map sample_entry [10, 9, 8, 7, 6, 5, 4, 3, 2, 1])))))
           \<lparr>activeAnalysisId := Some ''request_1''\<rparr>))
     = map (\<lambda>n. Some (JStr (request_id n))) [11, 10, 9, 8, 7, 6, 5, 4, 3, 2]"
proof -
  let ?s = "(page_load (Some (JsonText (JArr (map sample_entry [10, 9, 8, 7, 6, 5, 4, 3, 2, 1])))))
           \<lparr>activeAnalysisId := Some ''request_1''\<rparr>"
  have h1: "input_value sample_form ?s \<noteq> []"
    by (simp add: sample_input_active)
  have h5: "getHistory ?s = JArr (map sample_entry [10, 9, 8, 7, 6, 5, 4, 3, 2, 1])"
    by (simp add: getHistory_cases page_load_def)
  have h6: "\<not> storage_full ?s"
    by (simp add: page_load_def)
  have "history_ids ?s = map entry_id (map sample_entry [10, 9, 8, 7, 6, 5, 4, 3, 2, 1])"
    by (simp only: h5 history_ids_def json.case)
  then have ids: "history_ids ?s
      = map (\<lambda>n. Some (JStr (request_id n))) [10, 9, 8, 7, 6, 5, 4, 3, 2, 1]"
    by (simp add: entry_id_sample)
  have r: "request_id 11 = ''request_11''"
    by (simp add: request_id_def show_int_def digits.simps)
  note t = selection_replaced_at_end_of_dispatch
    [OF h1 sample_checked sample_results sample_container h5 h6,
      of "sample_entry 11" 11 "''2026-01-02T00:00:00.000Z''"]
  let ?s' = "handleAnalyze sample_form 11 ''2026-01-02T00:00:00.000Z''
      (Response True (Some sample_body)) ?s"
  from t have a: "activeAnalysisId ?s' = Some (request_id 11)"
    by blast
  from t have b: "history_ids ?s'
      = take MAX_HISTORY_ENTRIES (Some (JStr (request_id 11)) # history_ids ?s)"
    by blast
  have c: "take MAX_HISTORY_ENTRIES (Some (JStr (request_id 11))
        # map (\<lambda>n. Some (JStr (request_id n))) [10, 9, 8, 7, 6, 5, 4, 3, 2, 1])
      = map (\<lambda>n. Some (JStr (request_id n))) [11, 10, 9, 8, 7, 6, 5, 4, 3, 2]"
    by (simp add: MAX_HISTORY_ENTRIES_def)
  from b have "history_ids ?s'
      = map (\<lambda>n. Some (JStr (request_id n))) [11, 10, 9, 8, 7, 6, 5, 4, 3, 2]"
    by (simp only: ids c)
  with a show ?thesis by (simp only: r simp_thms)
qed

subsection \<open>A write that the storage refuses\<close>

text \<open>
  C10. When the storage refuses the write, \<^verbatim>\<open>saveToHistory\<close> swallows the exception and
  the slot stays as it was; a dispatch that succeeds and displays its results still sets
  \<^verbatim>\<open>activeAnalysisId\<close> to the id of the new entry. The ids in the history are those of
  before, so unless the id was there already, \<^verbatim>\<open>activeAnalysisId\<close> names an entry that
  the history does not hold.
\<close>

theorem refused_write_leaves_selection_without_entry:
  assumes "input_value f s \<noteq> []"
    and "featureSummarize_checked f \<or> featureTopics_checked f
      \<or> featureSentiment_checked f \<or> featureIntents_checked f"
    and "dot (Some d) ''results'' = Inr results"
    and "results_container results (selected f) = Inr blocks"
    and "storage_full s"
    and "Some (JStr (request_id now)) \<notin> set (history_ids s)"
  shows "slot (handleAnalyze f now stamp (Response True (Some d)) s) = slot s
     \<and> activeAnalysisId (handleAnalyze f now stamp (Response True (Some d)) s)
         = Some (request_id now)
     \<and> Some (JStr (request_id now))
         \<notin> set (history_ids (handleAnalyze f now stamp (Response True (Some d)) s))"
proof -
  let ?entry = "historyEntry (request_id now) stamp (input_value f s) (inputMode s)
      (selected f) results"
  have "slot (handleAnalyze f now stamp (Response True (Some d)) s)
      = slot (saveToHistory ?entry s)"
    using assms(1-4) by (rule handleAnalyze_ok_slot)
  then have same: "slot (handleAnalyze f now stamp (Response True (Some d)) s) = slot s"
    using assms(5) by (simp add: saveToHistory_full)
  then have "getHistory (handleAnalyze f now stamp (Response True (Some d)) s) = getHistory s"
    by (rule getHistory_slot)
  then have "history_ids (handleAnalyze f now stamp (Response True (Some d)) s) = history_ids s"
    by (simp add: history_ids_def)
  moreover have "activeAnalysisId (handleAnalyze f now stamp (Response True (Some d)) s)
         = Some (request_id now)"
    using assms(1-4) by (rule handleAnalyze_ok_active)
  ultimately show ?thesis using same assms(6) by simp
qed

text \<open>C10, an instance: a first dispatch on a fresh page whose storage is full.\<close>

theorem refused_write_leaves_selection_without_entry_witness:
  "slot (handleAnalyze sample_form 5 ''2026-01-02T00:00:00.000Z'' (Response True (Some sample_body))
        ((page_load None)\<lparr>storage_full := True\<rparr>)) = None
   \<and> activeAnalysisId
        (handleAnalyze sample_form 5 ''2026-01-02T00:00:00.000Z'' (Response True (Some sample_body))
          ((page_load None)\<lparr>storage_full := True\<rparr>)) = Some ''request_5''
   \<and> Some (JStr ''request_5'')
       \<notin> set (history_ids
        (handleAnalyze sample_form 5 ''2026-01-02T00:00:00.000Z'' (Response True (Some sample_body))
          ((page_load None)\<lparr>storage_full := True\<rparr>)))"
proof -
  let ?s = "(page_load None)\<lparr>storage_full := True\<rparr>"
  have h1: "input_value sample_form ?s \<noteq> []"
    by (simp add: sample_input_full)
  have h5: "storage_full ?s"
    by simp
  have r: "request_id 5 = ''request_5''"
    by (simp add: request_id_def show_int_def digits.simps)
  have "history_ids ?s = []"
    by (simp add: history_ids_def getHistory_cases page_load_def)
  then have h6: "Some (JStr (request_id 5)) \<notin> set (history_ids ?s)"
    by simp
  have "slot ?s = None"
    by (simp add: page_load_def)
  with refused_write_leaves_selection_without_entry
    [OF h1 sample_checked sample_results sample_container h5 h6,
      of "''2026-01-02T00:00:00.000Z''"]
  show ?thesis by (simp add: r)
qed

subsection \<open>Validation\<close>

text \<open>
  C5. When the trimmed input is empty, \<^verbatim>\<open>handleAnalyze\<close> only shows the message asking
  for an input; when it is not but no feature is checked, it only shows the message
  asking for a feature; in both cases nothing else changes, and no request is sent. With
  a non-empty input and at least one feature checked, exactly one request is sent.
\<close>

theorem validation_before_dispatch:
  "(input_value f s = [] \<longrightarrow>
      handleAnalyze f now stamp r s
        = s\<lparr>status := Failed (Text ''Please enter text or URL to analyze'')\<rparr>)
   \<and> (input_value f s \<noteq> [] \<and> \<not> featureSummarize_checked f \<and> \<not> featureTopics_checked f
        \<and> \<not> featureSentiment_checked f \<and> \<not> featureIntents_checked f \<longrightarrow>
      handleAnalyze f now stamp r s
        = s\<lparr>status := Failed (Text ''Please select at least one intelligence feature'')\<rparr>)
   \<and> (input_value f s \<noteq> [] \<and> (featureSummarize_checked f \<or> featureTopics_checked f
        \<or> featureSentiment_checked f \<or> featureIntents_checked f) \<longrightarrow>
      sent (handleAnalyze f now stamp r s) = sent s @ [analysis_request f now s])"
proof (intro conjI impI)
  assume "input_value f s = []"
  then show "handleAnalyze f now stamp r s
      = s\<lparr>status := Failed (Text ''Please enter text or URL to analyze'')\<rparr>"
    by (rule handleAnalyze_empty_input)
next
  assume "input_value f s \<noteq> [] \<and> \<not> featureSummarize_checked f \<and> \<not> featureTopics_checked f
        \<and> \<not> featureSentiment_checked f \<and> \<not> featureIntents_checked f"
  then show "handleAnalyze f now stamp r s
      = s\<lparr>status := Failed (Text ''Please select at least one intelligence feature'')\<rparr>"
    by (simp add: handleAnalyze_no_feature)
next
  let ?d = "s\<lparr>status := Working ''Analyzing text...'', formDisabled := True,
                sent := sent s @ [analysis_request f now s]\<rparr>"
  assume a: "input_value f s \<noteq> [] \<and> (featureSummarize_checked f \<or> featureTopics_checked f
        \<or> featureSentiment_checked f \<or> featureIntents_checked f)"
  show "sent (handleAnalyze f now stamp r s) = sent s @ [analysis_request f now s]"
  proof (cases "handleAnalyze_try (selected f) (input_value f s) (request_id now) stamp r ?d")
    case (Inl p)
    obtain e s' where p: "p = (e, s')" by (cases p)
    with Inl have "sent s' = sent ?d" by (simp add: try_sent(1))
    with a Inl p show ?thesis by (simp add: handleAnalyze_dispatch)
  next
    case (Inr s')
    then have "sent s' = sent ?d" by (simp add: try_sent(2))
    with a Inr show ?thesis by (simp add: handleAnalyze_dispatch)
  qed
qed

text \<open>
  C5, instances on a fresh page: an input of blanks, a filled form without a feature, and
  a filled form with one feature.
\<close>

theorem validation_before_dispatch_witness:
  "handleAnalyze (sample_form\<lparr>textInput_value := ''   ''\<rparr>) 5 ''t'' Rejected (page_load None)
     = (page_load None)\<lparr>status := Failed (Text ''Please enter text or URL to analyze'')\<rparr>
   \<and> handleAnalyze (sample_form\<lparr>featureSummarize_checked := False\<rparr>) 5 ''t'' Rejected
       (page_load None)
     = (page_load None)
         \<lparr>status := Failed (Text ''Please select at least one intelligence feature'')\<rparr>
   \<and> sent (handleAnalyze sample_form 5 ''t'' Rejected (page_load None))
     = sent (page_load None) @ [analysis_request sample_form 5 (page_load None)]"
proof -
  have e: "input_value (sample_form\<lparr>textInput_value := ''   ''\<rparr>) (page_load None) = []"
    by (simp add: input_value_def sample_form_def page_load_def trim_def is_space_def)
  have n: "input_value (sample_form\<lparr>featureSummarize_checked := False\<rparr>) (page_load None) \<noteq> []
      \<and> \<not> featureSummarize_checked (sample_form\<lparr>featureSummarize_checked := False\<rparr>)
      \<and> \<not> featureTopics_checked (sample_form\<lparr>featureSummarize_checked := False\<rparr>)
      \<and> \<not> featureSentiment_checked (sample_form\<lparr>featureSummarize_checked := False\<rparr>)
      \<and> \<not> featureIntents_checked (sample_form\<lparr>featureSummarize_checked := False\<rparr>)"
    by (simp add: input_value_def sample_form_def page_load_def trim_def is_space_def)
  have v: "input_value sample_form (page_load None) \<noteq> []
      \<and> (featureSummarize_checked sample_form \<or> featureTopics_checked sample_form
        \<or> featureSentiment_checked sample_form \<or> featureIntents_checked sample_form)"
    by (simp add: sample_input sample_checked)
  from e n v
    validation_before_dispatch
      [of "sample_form\<lparr>textInput_value := ''   ''\<rparr>" "page_load None" 5 "''t''" Rejected]
    validation_before_dispatch
      [of "sample_form\<lparr>featureSummarize_checked := False\<rparr>" "page_load None" 5 "''t''" Rejected]
    validation_before_dispatch [of sample_form "page_load None" 5 "''t''" Rejected]
  show ?thesis by blast
qed

subsection \<open>A response that is not ok\<close>



section \<open>Properties of the request id\<close>

lemma digit_inj:
  assumes "a < 10" and "b < 10" and "''0123456789'' ! a = ''0123456789'' ! b"
  shows "a = b"
proof -
  have "distinct ''0123456789''" by simp
  moreover have "a < length ''0123456789''" "b < length ''0123456789''"
    using assms(1,2) by simp_all
  ultimately show ?thesis using assms(3) by (simp only: nth_eq_iff_index_eq)
qed

lemma digit_in: "a < 10 \<Longrightarrow> ''0123456789'' ! a \<in> set ''0123456789''"
  by (rule nth_mem) simp

lemma digits_nonempty: "digits n \<noteq> []"
  by (subst digits.simps) simp

lemma digits_set: "set (digits n) \<subseteq> set ''0123456789''"
proof (induction n rule: digits.induct)
  case (1 n)
  show ?case
  proof (cases "n < 10")
    case True
    then show ?thesis using digit_in [of n] by (subst digits.simps) simp
  next
    case False
    have "n mod 10 < 10" by simp
    then have "''0123456789'' ! (n mod 10) \<in> set ''0123456789''" by (rule digit_in)
    with False 1 show ?thesis by (subst digits.simps) simp
  qed
qed

lemma digits_no_minus: "digits n \<noteq> CHR ''-'' # cs"
proof
  assume "digits n = CHR ''-'' # cs"
  then have "CHR ''-'' \<in> set (digits n)" by simp
  with digits_set [of n] show False by auto
qed

lemma digits_inj: "digits n = digits m \<Longrightarrow> n = m"
proof (induction n arbitrary: m rule: digits.induct)
  case (1 n)
  show ?case
  proof (cases "n < 10")
    case n: True
    show ?thesis
    proof (cases "m < 10")
      case True
      with n "1.prems" show ?thesis
        by (simp add: digits.simps [of n] digits.simps [of m] digit_inj)
    next
      case False
      with n "1.prems" digits_nonempty [of "m div 10"] show ?thesis
        by (simp add: digits.simps [of n] digits.simps [of m])
    qed
  next
    case n: False
    show ?thesis
    proof (cases "m < 10")
      case True
      with n "1.prems" digits_nonempty [of "n div 10"] show ?thesis
        by (simp add: digits.simps [of n] digits.simps [of m])
    next
      case False
      with n "1.prems" have eq: "digits (n div 10) = digits (m div 10)"
        and d: "''0123456789'' ! (n mod 10) = ''0123456789'' ! (m mod 10)"
        by (simp_all add: digits.simps [of n] digits.simps [of m])
      from n eq have "n div 10 = m div 10" by (rule "1.IH")
      moreover have "n mod 10 = m mod 10"
        using d by (intro digit_inj) simp_all
      ultimately show ?thesis by (metis div_mult_mod_eq)
    qed
  qed
qed

lemma show_int_inj: "show_int a = show_int b \<Longrightarrow> a = b"
proof -
  assume eq: "show_int a = show_int b"
  show ?thesis
  proof (cases "a < 0")
    case a: True
    show ?thesis
    proof (cases "b < 0")
      case True
      with a eq have "nat (- a) = nat (- b)" by (simp add: show_int_def digits_inj)
      with a True show ?thesis by simp
    next
      case False
      with a eq have "digits (nat b) = CHR ''-'' # digits (nat (- a))"
        by (simp add: show_int_def)
      with digits_no_minus show ?thesis by blast
    qed
  next
    case a: False
    show ?thesis
    proof (cases "b < 0")
      case True
      with a eq have "digits (nat a) = CHR ''-'' # digits (nat (- b))"
        by (simp add: show_int_def)
      with digits_no_minus show ?thesis by blast
    next
      case False
      with a eq have "nat a = nat b" by (simp add: show_int_def digits_inj)
      with a False show ?thesis by simp
    qed
  qed
qed

text \<open>
  C9, as stated, fails: two dispatches that read the same value of \<^verbatim>\<open>Date.now()\<close> (the
  clock is read in milliseconds, browsers may round it further, and it can be set back)
  get the same request id, and the history then holds two entries with that id.
\<close>

theorem same_clock_same_id_counterexample:
  "history_ids
     (handleAnalyze sample_form 1700000000000 ''2023-11-14T22:13:20.000Z''
        (Response True (Some sample_body))
        (handleAnalyze sample_form 1700000000000 ''2023-11-14T22:13:20.000Z''
           (Response True (Some sample_body)) (page_load None)))
   = [Some (JStr ''request_1700000000000''), Some (JStr ''request_1700000000000'')]"
proof -
  let ?s1 = "handleAnalyze sample_form 1700000000000 ''2023-11-14T22:13:20.000Z''
           (Response True (Some sample_body)) (page_load None)"
  let ?s2 = "handleAnalyze sample_form 1700000000000 ''2023-11-14T22:13:20.000Z''
           (Response True (Some sample_body)) ?s1"
  let ?e = "historyEntry (request_id 1700000000000) ''2023-11-14T22:13:20.000Z'' ''hello''
      TextMode (selected sample_form)
      (Some (JObj [(''summary'', JObj [(''text'', JStr ''hi'')])]))"
  have r: "request_id 1700000000000 = ''request_1700000000000''"
    by (simp add: request_id_def show_int_def digits.simps)
  have i0: "input_value sample_form (page_load None) \<noteq> []"
    by (simp add: sample_input)
  have p: "inputMode (page_load None) = TextMode"
    by (simp add: page_load_def)
  have "slot ?s1 = slot (saveToHistory ?e (page_load None))"
    using handleAnalyze_ok_slot [OF i0 sample_checked sample_results sample_container]
    by (simp only: sample_input p)
  then have s1: "slot ?s1 = Some (JsonText (JArr [?e]))"
    by (simp add: saveToHistory_cases getHistory_cases page_load_def MAX_HISTORY_ENTRIES_def)
  have "inputMode ?s1 = inputMode (page_load None)"
    and "storage_full ?s1 = storage_full (page_load None)"
    using handleAnalyze_ok_frame [OF i0 sample_checked sample_results sample_container]
    by blast+
  then have m1: "inputMode ?s1 = TextMode" and f1: "\<not> storage_full ?s1"
    by (simp_all add: page_load_def)
  from m1 have v1: "input_value sample_form ?s1 = ''hello''"
    by (simp add: input_value_def sample_form_def trim_def is_space_def)
  then have i1: "input_value sample_form ?s1 \<noteq> []"
    by simp
  have "slot ?s2 = slot (saveToHistory ?e ?s1)"
    using handleAnalyze_ok_slot [OF i1 sample_checked sample_results sample_container]
    by (simp only: v1 m1)
  then have "slot ?s2 = Some (JsonText (JArr [?e, ?e]))"
    using s1 f1 by (simp add: saveToHistory_cases getHistory_cases MAX_HISTORY_ENTRIES_def)
  then have "history_ids ?s2 = [entry_id ?e, entry_id ?e]"
    by (simp add: history_ids_def getHistory_cases)
  then show ?thesis
    by (simp only: entry_id_historyEntry r)
qed

text \<open>
  C9, amended. Two dispatches get the same request id exactly when they read the same
  value of \<^verbatim>\<open>Date.now()\<close>: the ids of dispatches made at different clock readings are
  distinct.
\<close>

theorem request_ids_differ_iff_clock_differs:
  "(request_id a = request_id b) = (a = b)"
  by (auto simp add: request_id_def dest: show_int_inj)

text \<open>C9, an instance: two clock readings one millisecond apart.\<close>

theorem request_ids_differ_iff_clock_differs_witness:
  "request_id 1700000000000 \<noteq> request_id 1700000000001"
  using request_ids_differ_iff_clock_differs [of 1700000000000 1700000000001]
  by simp

end
